theory Spec2Isabelle
  imports Complex_Main "HOL-Library.AList"
begin

section \<open>Python values, errors and files\<close>

text \<open>
  The module \<^verbatim>\<open>crowdsourcing.py\<close> is Python 2 (it uses the \<^verbatim>\<open>print\<close> statement). Every
  exception the code can raise is a value of \<open>py_error\<close>; a function of the module
  returns \<open>py_error + 'a\<close>, with \<open>Inl\<close> for the exception that propagates to the caller.
  \<open>TypeError\<close> carries the operation that was refused, \<open>KeyError\<close> the missing key,
  \<open>NameError\<close> the unbound name and \<open>IOError\<close> the path that could not be opened.
  Console output (\<^verbatim>\<open>print\<close>) is not part of the model.
\<close>

datatype py_error =
    NameError string
  | IndexError
  | ValueError
  | KeyError string
  | TypeError string
  | OverflowError
  | IOError string
  | AttributeError string
  | WKBReadingError
  | DatabaseError

text \<open>
  The object model of the \<^verbatim>\<open>geojson\<close> package: what \<^verbatim>\<open>geojson.load\<close> returns and
  \<^verbatim>\<open>geojson.dump\<close> accepts. A Python dict is an association list read with \<open>map_of\<close>
  and written with \<open>AList.update\<close>; a tuple of floats is serialised as an array.
\<close>

datatype json =
    JNull
  | JBool bool
  | JInt int
  | JFloat rat
  | JStr string
  | JArr "json list"
  | JObj "(string \<times> json) list"

text \<open>
  A stored file is modelled by what \<^verbatim>\<open>geojson.load\<close> makes of it: the object it decodes
  to, or \<open>Malformed\<close> when the decoder rejects the text. The file store maps a path to
  its file; opening a path that has no file for reading raises \<open>IOError\<close>. Opening for
  writing creates or truncates the file, and \<^verbatim>\<open>geojson.dump\<close> then writes the whole
  object.
\<close>

datatype content = Geojson json | Malformed

type_synonym files = "string \<rightharpoonup> content"

definition geojson_load :: "files \<Rightarrow> string \<Rightarrow> py_error + json" where
  "geojson_load fs path =
     (case fs path of
        None \<Rightarrow> Inl (IOError path)
      | Some Malformed \<Rightarrow> Inl ValueError
      | Some (Geojson obj) \<Rightarrow> Inr obj)"

definition geojson_dump :: "json \<Rightarrow> string \<Rightarrow> files \<Rightarrow> files" where
  "geojson_dump obj path fs = fs(path \<mapsto> Geojson obj)"

text \<open>
  The constructors of the \<^verbatim>\<open>geojson\<close> package that the module calls, with the members
  the statements below read: the type, the geometry and its coordinates, the properties,
  the features. (Some versions of the package add a null \<^verbatim>\<open>id\<close> member to a Feature; no
  statement reads it.)
\<close>

definition Polygon :: "json \<Rightarrow> json" where
  "Polygon coordinates = JObj [(''type'', JStr ''Polygon''), (''coordinates'', coordinates)]"

definition Feature :: "json \<Rightarrow> json \<Rightarrow> json" where
  "Feature geometry properties =
     JObj [(''type'', JStr ''Feature''), (''geometry'', geometry), (''properties'', properties)]"

definition FeatureCollection :: "json \<Rightarrow> json" where
  "FeatureCollection features =
     JObj [(''type'', JStr ''FeatureCollection''), (''features'', features)]"

subsection \<open>Subscripts, addition, length and slices\<close>

text \<open>\<^verbatim>\<open>obj[key]\<close> with a string key: only a dict accepts it.\<close>

fun getitem :: "json \<Rightarrow> string \<Rightarrow> py_error + json" where
  "getitem (JObj kvs) key =
     (case map_of kvs key of None \<Rightarrow> Inl (KeyError key) | Some v \<Rightarrow> Inr v)"
| "getitem _ key = Inl (TypeError ''getitem'')"

text \<open>\<^verbatim>\<open>obj[key] = value\<close>.\<close>

fun setitem :: "json \<Rightarrow> string \<Rightarrow> json \<Rightarrow> py_error + json" where
  "setitem (JObj kvs) key v = Inr (JObj (AList.update key v kvs))"
| "setitem _ key v = Inl (TypeError ''setitem'')"

text \<open>
  \<^verbatim>\<open>a + b\<close>: concatenation of two lists or two strings, the sum of two numbers (a
  bool counts as the integer 0 or 1), and \<open>TypeError\<close> for every other pair.
\<close>

fun as_int :: "json \<Rightarrow> int option" where
  "as_int (JInt i) = Some i"
| "as_int (JBool b) = Some (if b then 1 else 0)"
| "as_int _ = None"

fun as_number :: "json \<Rightarrow> rat option" where
  "as_number (JFloat x) = Some x"
| "as_number v = map_option of_int (as_int v)"

fun py_add :: "json \<Rightarrow> json \<Rightarrow> py_error + json" where
  "py_add (JArr xs) (JArr ys) = Inr (JArr (xs @ ys))"
| "py_add (JStr s) (JStr t) = Inr (JStr (s @ t))"
| "py_add a b =
     (case (as_int a, as_int b) of
        (Some i, Some j) \<Rightarrow> Inr (JInt (i + j))
      | _ \<Rightarrow>
        (case (as_number a, as_number b) of
           (Some x, Some y) \<Rightarrow> Inr (JFloat (x + y))
         | _ \<Rightarrow> Inl (TypeError ''add'')))"

text \<open>\<^verbatim>\<open>len(obj)\<close>: lists, strings and dicts have a length.\<close>

fun py_len :: "json \<Rightarrow> py_error + nat" where
  "py_len (JArr xs) = Inr (length xs)"
| "py_len (JStr s) = Inr (length s)"
| "py_len (JObj kvs) = Inr (length (remdups (map fst kvs)))"
| "py_len _ = Inl (TypeError ''len'')"

text \<open>
  The bound \<open>k\<close> of a slice of a sequence of length \<open>n\<close>: a negative bound counts from
  the end, and the result is clamped to \<open>0..n\<close>.
\<close>

definition slice_index :: "int \<Rightarrow> nat \<Rightarrow> nat" where
  "slice_index k n = (if k < 0 then nat (max 0 (k + int n)) else min (nat k) n)"

text \<open>\<^verbatim>\<open>seq[0:k]\<close> and \<^verbatim>\<open>seq[k:]\<close>: lists and strings can be sliced.\<close>

fun slice_to :: "int \<Rightarrow> json \<Rightarrow> py_error + json" where
  "slice_to k (JArr xs) = Inr (JArr (take (slice_index k (length xs)) xs))"
| "slice_to k (JStr s) = Inr (JStr (take (slice_index k (length s)) s))"
| "slice_to k _ = Inl (TypeError ''getslice'')"

fun slice_from :: "int \<Rightarrow> json \<Rightarrow> py_error + json" where
  "slice_from k (JArr xs) = Inr (JArr (drop (slice_index k (length xs)) xs))"
| "slice_from k (JStr s) = Inr (JStr (drop (slice_index k (length s)) s))"
| "slice_from k _ = Inl (TypeError ''getslice'')"

subsection \<open>Floats\<close>

text \<open>
  A Python float is the number it denotes, or one of the three values that are not
  numbers. The product of two finite floats is taken exactly: its rounding to double
  precision (and its overflow beyond the largest double) is not modelled.
  \<open>py_round\<close> is Python 2's \<^verbatim>\<open>round\<close>, which rounds a tie away from zero and returns a
  float; \<open>py_int\<close> is \<^verbatim>\<open>int\<close> on a float, which truncates towards zero and raises on
  the values that are not numbers.
\<close>

datatype pyfloat = Finite rat | PosInf | NegInf | NaN

fun float_times_int :: "pyfloat \<Rightarrow> nat \<Rightarrow> pyfloat" where
  "float_times_int (Finite x) n = Finite (x * of_nat n)"
| "float_times_int PosInf n = (if n = 0 then NaN else PosInf)"
| "float_times_int NegInf n = (if n = 0 then NaN else NegInf)"
| "float_times_int NaN n = NaN"

definition round_half_away :: "rat \<Rightarrow> int" where
  "round_half_away x = (if 0 \<le> x then \<lfloor>x + 1 / 2\<rfloor> else \<lceil>x - 1 / 2\<rceil>)"

fun py_round :: "pyfloat \<Rightarrow> pyfloat" where
  "py_round (Finite x) = Finite (of_int (round_half_away x))"
| "py_round x = x"

fun py_int :: "pyfloat \<Rightarrow> py_error + int" where
  "py_int (Finite x) = Inr (if 0 \<le> x then \<lfloor>x\<rfloor> else \<lceil>x\<rceil>)"
| "py_int PosInf = Inl OverflowError"
| "py_int NegInf = Inl OverflowError"
| "py_int NaN = Inl ValueError"

section \<open>The geojson joiner and splitter\<close>

text \<open>
  \<^verbatim>\<open>join_two_geojsons(file_1, file_2, output_file)\<close>: both files are loaded, then the two
  \<^verbatim>\<open>'features'\<close> members are read and added, the sum replaces the member of the first
  object, and only then is the output file opened and written.
\<close>

definition join_two_geojsons ::
  "string \<Rightarrow> string \<Rightarrow> string \<Rightarrow> files \<Rightarrow> (py_error + unit) \<times> files" where
  "join_two_geojsons file_1 file_2 output_file fs =
     (case geojson_load fs file_1 of Inl e \<Rightarrow> (Inl e, fs) | Inr feat_collection_1 \<Rightarrow>
      (case geojson_load fs file_2 of Inl e \<Rightarrow> (Inl e, fs) | Inr feat_collection_2 \<Rightarrow>
       (case getitem feat_collection_1 ''features'' of Inl e \<Rightarrow> (Inl e, fs) | Inr features_1 \<Rightarrow>
        (case getitem feat_collection_2 ''features'' of Inl e \<Rightarrow> (Inl e, fs) | Inr features_2 \<Rightarrow>
         (case py_add features_1 features_2 of Inl e \<Rightarrow> (Inl e, fs) | Inr feat_final \<Rightarrow>
          (case setitem feat_collection_1 ''features'' feat_final of Inl e \<Rightarrow> (Inl e, fs)
           | Inr feat_collection \<Rightarrow>
               (Inr (), geojson_dump feat_collection output_file fs)))))))"

text \<open>
  \<^verbatim>\<open>split_geojson(input_file, file_1, file_2, ratio)\<close>: the split index is
  \<^verbatim>\<open>int(round(ratio*no_features))\<close>; the two slices are taken before either output file
  is opened, and \<^verbatim>\<open>file_1\<close> is written before \<^verbatim>\<open>file_2\<close>.
\<close>

definition split_geojson ::
  "string \<Rightarrow> string \<Rightarrow> string \<Rightarrow> pyfloat \<Rightarrow> files \<Rightarrow> (py_error + unit) \<times> files" where
  "split_geojson input_file file_1 file_2 ratio fs =
     (case geojson_load fs input_file of Inl e \<Rightarrow> (Inl e, fs) | Inr feat_collection \<Rightarrow>
      (case getitem feat_collection ''features'' of Inl e \<Rightarrow> (Inl e, fs) | Inr features \<Rightarrow>
       (case py_len features of Inl e \<Rightarrow> (Inl e, fs) | Inr no_features \<Rightarrow>
        (case py_int (py_round (float_times_int ratio no_features)) of Inl e \<Rightarrow> (Inl e, fs)
         | Inr no_features_1 \<Rightarrow>
          (case slice_to no_features_1 features of Inl e \<Rightarrow> (Inl e, fs) | Inr features_1 \<Rightarrow>
           (case slice_from no_features_1 features of Inl e \<Rightarrow> (Inl e, fs) | Inr features_2 \<Rightarrow>
              (Inr (),
               geojson_dump (FeatureCollection features_2) file_2
                 (geojson_dump (FeatureCollection features_1) file_1 fs))))))))"

section \<open>The exporters\<close>

subsection \<open>Formatting the query\<close>

text \<open>
  The values the module passes to \<^verbatim>\<open>str.format\<close>, and their rendering by an empty
  format specification, which is \<^verbatim>\<open>str\<close>. The text of a float is a parameter
  (\<open>float_str\<close>): the digits Python prints for a float are outside this model.
\<close>

datatype pyval = PStr string | PInt int | PFloat pyfloat

definition digit :: "nat \<Rightarrow> char" where
  "digit n = ''0123456789'' ! n"

fun str_nat :: "nat \<Rightarrow> string" where
  "str_nat n = (if n < 10 then [digit n] else str_nat (n div 10) @ [digit (n mod 10)])"

declare str_nat.simps [simp del]

definition str_int :: "int \<Rightarrow> string" where
  "str_int i = (if i < 0 then CHR ''-'' # str_nat (nat (- i)) else str_nat (nat i))"

fun py_str :: "(pyfloat \<Rightarrow> string) \<Rightarrow> pyval \<Rightarrow> string" where
  "py_str float_str (PStr s) = s"
| "py_str float_str (PInt i) = str_int i"
| "py_str float_str (PFloat x) = float_str x"

text \<open>
  \<^verbatim>\<open>template.format(*args)\<close> for a template whose only replacement fields are the
  automatically numbered \<^verbatim>\<open>{}\<close>, the one kind the module uses: each field takes the next
  positional argument, and a field with no argument left raises \<open>IndexError\<close>. Arguments
  left over are ignored. The templates of the module have no other brace; a brace that
  does not belong to a \<^verbatim>\<open>{}\<close> field is refused with \<open>ValueError\<close>, as Python refuses a
  single brace.
\<close>

fun py_format :: "(pyfloat \<Rightarrow> string) \<Rightarrow> string \<Rightarrow> pyval list \<Rightarrow> py_error + string" where
  "py_format float_str [] args = Inr []"
| "py_format float_str [c] args =
     (if c = CHR ''{'' \<or> c = CHR ''}'' then Inl ValueError else Inr [c])"
| "py_format float_str (c # d # cs) args =
     (if c = CHR ''{'' then
        (if d = CHR ''}'' then
           (case args of
              [] \<Rightarrow> Inl IndexError
            | a # rest \<Rightarrow>
                (case py_format float_str cs rest of
                   Inl e \<Rightarrow> Inl e
                 | Inr s \<Rightarrow> Inr (py_str float_str a @ s)))
         else Inl ValueError)
      else if c = CHR ''}'' then Inl ValueError
      else (case py_format float_str (d # cs) args of
              Inl e \<Rightarrow> Inl e
            | Inr s \<Rightarrow> Inr (c # s)))"

text \<open>
  The two query templates, with each run of line breaks and tabs of the source written as
  one space.
\<close>

definition train_query :: string where
  "train_query =
     ''SELECT feature.id, feature.feature FROM {}.feature, tag_type, overlay '' @
     ''WHERE feature.type_id = tag_type.id AND feature.overlay_id = overlay.id '' @
     ''AND overlay.catalogid = '{}' AND tag_type.name = '{}' '' @
     ''AND feature.score >= {} AND feature.num_votes_total >= {} '' @
     ''ORDER BY feature.score DESC LIMIT {}''"

definition target_query :: string where
  "target_query =
     ''SELECT feature.id, feature.feature, tag_type.name FROM {}.feature, tag_type, overlay '' @
     ''WHERE feature.type_id = tag_type.id AND {}.feature, overlay '' @
     ''AND feature.overlay_id = overlay.id AND overlay.catalogid = '{}' '' @
     ''AND feature.score <= {} AND feature.num_votes_total <= {} '' @
     ''ORDER BY feature.score ASC NULLS FIRST LIMIT {}''"

subsection \<open>Decoding a geometry and building a Feature\<close>

text \<open>
  \<^verbatim>\<open>shapely.wkb.loads(coords_in_hex, hex=True)\<close> is a parameter \<open>loads\<close>: it returns the
  decoded geometry, or \<open>None\<close> when it raises on a malformed encoding. Reading
  \<^verbatim>\<open>.exterior\<close> of a geometry that is not a polygon raises \<open>AttributeError\<close>. The interior
  rings of a polygon are never read.
\<close>

type_synonym coord = "rat \<times> rat"

datatype shape = PolygonShape "coord list" "coord list list" | OtherShape

definition coord_json :: "coord \<Rightarrow> json" where
  "coord_json c = JArr [JFloat (fst c), JFloat (snd c)]"

definition exterior_coords :: "(string \<Rightarrow> shape option) \<Rightarrow> string \<Rightarrow> py_error + json" where
  "exterior_coords loads coords_in_hex =
     (case loads coords_in_hex of
        None \<Rightarrow> Inl WKBReadingError
      | Some OtherShape \<Rightarrow> Inl (AttributeError ''exterior'')
      | Some (PolygonShape exterior interiors) \<Rightarrow> Inr (JArr [JArr (map coord_json exterior)]))"

text \<open>
  The loop of \<^verbatim>\<open>train_geojson\<close> over the rows \<^verbatim>\<open>(feature_id, coords_in_hex)\<close>: the class
  name is the caller's argument. The first row that fails to decode ends the loop with
  its exception.
\<close>

fun train_convert ::
  "(string \<Rightarrow> shape option) \<Rightarrow> string \<Rightarrow> string \<Rightarrow> (int \<times> string) list \<Rightarrow> py_error + json list" where
  "train_convert loads class_name cat_id [] = Inr []"
| "train_convert loads class_name cat_id ((feature_id, coords_in_hex) # entries) =
     (case exterior_coords loads coords_in_hex of
        Inl e \<Rightarrow> Inl e
      | Inr coords \<Rightarrow>
          (case train_convert loads class_name cat_id entries of
             Inl e \<Rightarrow> Inl e
           | Inr geojson_features \<Rightarrow>
               Inr (Feature (Polygon coords)
                      (JObj [(''id'', JStr (str_int feature_id)),
                             (''class_name'', JStr class_name),
                             (''image_name'', JStr cat_id)])
                    # geojson_features)))"

text \<open>
  The loop of \<^verbatim>\<open>target_geojson\<close> over the rows
  \<^verbatim>\<open>(feature_id, coords_in_hex, class_name)\<close>: the class name is the row's.
\<close>

fun target_convert ::
  "(string \<Rightarrow> shape option) \<Rightarrow> string \<Rightarrow> (int \<times> string \<times> string) list \<Rightarrow> py_error + json list" where
  "target_convert loads cat_id [] = Inr []"
| "target_convert loads cat_id ((feature_id, coords_in_hex, class_name) # entries) =
     (case exterior_coords loads coords_in_hex of
        Inl e \<Rightarrow> Inl e
      | Inr coords \<Rightarrow>
          (case target_convert loads cat_id entries of
             Inl e \<Rightarrow> Inl e
           | Inr geojson_features \<Rightarrow>
               Inr (Feature (Polygon coords)
                      (JObj [(''id'', JStr (str_int feature_id)),
                             (''class_name'', JStr class_name),
                             (''image_name'', JStr cat_id)])
                    # geojson_features)))"

subsection \<open>The two exporters\<close>

text \<open>
  \<^verbatim>\<open>DB.db_fetch_array\<close> is a parameter: it takes the text of the query and returns the
  rows, with the columns the \<^verbatim>\<open>SELECT\<close> list names, or the exception of the database.

  \<^verbatim>\<open>train_geojson(schema, cat_id, max_number, output_file, class_name, min_score,
  min_votes)\<close>: format the query, fetch, convert every row, and only then open and write
  the output file.
\<close>

definition train_geojson ::
  "(pyfloat \<Rightarrow> string) \<Rightarrow> (string \<Rightarrow> py_error + (int \<times> string) list) \<Rightarrow>
   (string \<Rightarrow> shape option) \<Rightarrow>
   string \<Rightarrow> string \<Rightarrow> int \<Rightarrow> string \<Rightarrow> string \<Rightarrow> pyfloat \<Rightarrow> int \<Rightarrow>
   files \<Rightarrow> (py_error + unit) \<times> files" where
  "train_geojson float_str db_fetch_array loads
       schema cat_id max_number output_file class_name min_score min_votes fs =
     (case py_format float_str train_query
             [PStr schema, PStr cat_id, PStr class_name,
              PFloat min_score, PInt min_votes, PInt max_number] of
        Inl e \<Rightarrow> (Inl e, fs)
      | Inr query \<Rightarrow>
      (case db_fetch_array query of Inl e \<Rightarrow> (Inl e, fs) | Inr data \<Rightarrow>
       (case train_convert loads class_name cat_id data of Inl e \<Rightarrow> (Inl e, fs)
        | Inr geojson_features \<Rightarrow>
            (Inr (), geojson_dump (FeatureCollection (JArr geojson_features)) output_file fs))))"

text \<open>
  \<^verbatim>\<open>target_geojson(schema, cat_id, max_number, output_file, max_score, max_votes)\<close>. The
  arguments of \<^verbatim>\<open>format\<close> are \<^verbatim>\<open>(schema, cat_id, min_score, max_score, max_number)\<close>:
  \<^verbatim>\<open>min_score\<close> is neither a parameter nor a local of the function, so it is looked up
  among the global names (\<open>globals\<close>) and raises \<open>NameError\<close> when it is not bound
  there; \<^verbatim>\<open>max_votes\<close> is not used.
\<close>

definition target_geojson ::
  "(string \<rightharpoonup> pyval) \<Rightarrow> (pyfloat \<Rightarrow> string) \<Rightarrow>
   (string \<Rightarrow> py_error + (int \<times> string \<times> string) list) \<Rightarrow> (string \<Rightarrow> shape option) \<Rightarrow>
   string \<Rightarrow> string \<Rightarrow> int \<Rightarrow> string \<Rightarrow> pyfloat \<Rightarrow> int \<Rightarrow>
   files \<Rightarrow> (py_error + unit) \<times> files" where
  "target_geojson globals float_str db_fetch_array loads
       schema cat_id max_number output_file max_score max_votes fs =
     (case globals ''min_score'' of
        None \<Rightarrow> (Inl (NameError ''min_score''), fs)
      | Some min_score \<Rightarrow>
      (case py_format float_str target_query
              [PStr schema, PStr cat_id, min_score, PFloat max_score, PInt max_number] of
         Inl e \<Rightarrow> (Inl e, fs)
       | Inr query \<Rightarrow>
       (case db_fetch_array query of Inl e \<Rightarrow> (Inl e, fs) | Inr data \<Rightarrow>
        (case target_convert loads cat_id data of Inl e \<Rightarrow> (Inl e, fs)
         | Inr geojson_features \<Rightarrow>
             (Inr (), geojson_dump (FeatureCollection (JArr geojson_features)) output_file fs)))))"

text \<open>
  The names the module binds at its top level are its three imports and its four
  functions: none of them is \<^verbatim>\<open>min_score\<close>, and no value of the kinds passed to
  \<^verbatim>\<open>format\<close> is bound there.
\<close>

definition module_globals :: "string \<rightharpoonup> pyval" where
  "module_globals = Map.empty"

subsection \<open>What the training query selects\<close>

text \<open>
  The meaning of the \<^verbatim>\<open>SELECT\<close> statement of \<^verbatim>\<open>train_geojson\<close> over the three tables
  it names: the rows of the product of the tables that pass the \<^verbatim>\<open>WHERE\<close> clause, in
  decreasing order of score, cut to the first \<^verbatim>\<open>max_number\<close>. A comparison with a
  null score is not true, so a row without a score is never selected; a schema without
  a feature table and a negative \<^verbatim>\<open>LIMIT\<close> are errors of the database. Rows of equal
  score keep the order of the product.
\<close>

record feature_row =
  f_id :: int
  f_feature :: string
  f_type_id :: int
  f_overlay_id :: int
  f_score :: "rat option"
  f_num_votes_total :: int

record tag_type_row =
  t_id :: int
  t_name :: string

record overlay_row =
  o_id :: int
  o_catalogid :: string


type_synonym joined_row = "feature_row \<times> tag_type_row \<times> overlay_row"




definition train_columns :: "joined_row \<Rightarrow> int \<times> string" where
  "train_columns r = (f_id (fst r), f_feature (fst r))"

subsection \<open>Reading a produced Feature\<close>

definition property :: "json \<Rightarrow> string \<Rightarrow> json option" where
  "property ft key =
     (case getitem ft ''properties'' of
        Inl e \<Rightarrow> None
      | Inr props \<Rightarrow> (case getitem props key of Inl e \<Rightarrow> None | Inr v \<Rightarrow> Some v))"



definition rings :: "json \<Rightarrow> json list option" where
  "rings ft =
     (case getitem ft ''geometry'' of
        Inl e \<Rightarrow> None
      | Inr g \<Rightarrow>
          if getitem g ''type'' = Inr (JStr ''Polygon'')
          then (case getitem g ''coordinates'' of Inr (JArr rs) \<Rightarrow> Some rs | _ \<Rightarrow> None)
          else None)"

subsection \<open>Predicates of the statements\<close>



text \<open>
  An input file is valid geojson when \<^verbatim>\<open>geojson.load\<close> returns an object for it; it lacks
  the features key when reading \<^verbatim>\<open>['features']\<close> of that object raises. The errors of
  reading are those of opening and decoding a file and of the subscript.
\<close>

definition valid_geojson :: "files \<Rightarrow> string \<Rightarrow> bool" where
  "valid_geojson fs path = (case geojson_load fs path of Inl e \<Rightarrow> False | Inr obj \<Rightarrow> True)"

definition lacks_features :: "files \<Rightarrow> string \<Rightarrow> bool" where
  "lacks_features fs path =
     (case geojson_load fs path of
        Inl e \<Rightarrow> False
      | Inr obj \<Rightarrow> (case getitem obj ''features'' of Inl e \<Rightarrow> True | Inr v \<Rightarrow> False))"

fun read_error :: "py_error \<Rightarrow> bool" where
  "read_error (IOError path) = True"
| "read_error ValueError = True"
| "read_error (KeyError key) = True"
| "read_error (TypeError operation) = (operation = ''getitem'')"
| "read_error _ = False"

definition failed_reading :: "(py_error + unit) \<times> files \<Rightarrow> bool" where
  "failed_reading result = (case fst result of Inl e \<Rightarrow> read_error e | Inr u \<Rightarrow> False)"

section \<open>Example data\<close>

definition example_feature :: "string \<Rightarrow> json" where
  "example_feature name =
     Feature (Polygon (JArr [JArr [coord_json (0, 0), coord_json (1, 0), coord_json (0, 0)]]))
       (JObj [(''id'', JStr name), (''class_name'', JStr ''building''),
              (''image_name'', JStr ''cat1'')])"

definition example_four :: "json list" where
  "example_four =
     [example_feature ''1'', example_feature ''2'', example_feature ''3'', example_feature ''4'']"

definition example_five :: "json list" where
  "example_five = example_four @ [example_feature ''5'']"

definition example_files :: files where
  "example_files =
     [''four.geojson'' \<mapsto> Geojson (FeatureCollection (JArr example_four)),
      ''five.geojson'' \<mapsto> Geojson (FeatureCollection (JArr example_five)),
      ''one.geojson'' \<mapsto> Geojson (FeatureCollection (JArr [example_feature ''1''])),
      ''crs.geojson'' \<mapsto>
         Geojson (JObj [(''type'', JStr ''FeatureCollection''),
                        (''crs'', JStr ''EPSG:4326''),
                        (''features'', JArr [example_feature ''1'', example_feature ''2''])]),
      ''nofeatures.geojson'' \<mapsto> Geojson (JObj [(''type'', JStr ''FeatureCollection'')]),
      ''broken.geojson'' \<mapsto> Malformed]"

definition example_loads :: "string \<Rightarrow> shape option" where
  "example_loads coords_in_hex =
     (if coords_in_hex = ''0103A0'' then
        Some (PolygonShape [(0, 0), (4, 0), (4, 3), (0, 0)] [[(1, 1), (2, 1), (2, 2), (1, 1)]])
      else if coords_in_hex = ''0103B0'' then
        Some (PolygonShape [(5, 5), (6, 5), (6, 6), (5, 5)] [])
      else if coords_in_hex = ''0101C0'' then Some OtherShape
      else None)"


definition example_rows :: "joined_row list" where
  "example_rows =
     [(\<lparr>f_id = 8, f_feature = ''0103B0'', f_type_id = 1, f_overlay_id = 10,
        f_score = Some (99 / 100), f_num_votes_total = 5\<rparr>,
       \<lparr>t_id = 1, t_name = ''building''\<rparr>, \<lparr>o_id = 10, o_catalogid = ''cat1''\<rparr>),
      (\<lparr>f_id = 7, f_feature = ''0103A0'', f_type_id = 1, f_overlay_id = 10,
        f_score = Some (24 / 25), f_num_votes_total = 3\<rparr>,
       \<lparr>t_id = 1, t_name = ''building''\<rparr>, \<lparr>o_id = 10, o_catalogid = ''cat1''\<rparr>)]"

definition example_fetch :: "string \<Rightarrow> py_error + (int \<times> string) list" where
  "example_fetch query = Inr (map train_columns example_rows)"

definition example_fetch_malformed :: "string \<Rightarrow> py_error + (int \<times> string) list" where
  "example_fetch_malformed query = Inr [(8, ''0103B0''), (14, ''FFFF'')]"

definition example_targets :: "(int \<times> string \<times> string) list" where
  "example_targets = [(11, ''0103A0'', ''building''), (15, ''0103B0'', ''road'')]"

definition example_float_str :: "pyfloat \<Rightarrow> string" where
  "example_float_str x = ''0.9''"

section \<open>Rounding and slicing\<close>






lemma round_half_away_tie: "0 \<le> k \<Longrightarrow> round_half_away (of_int k + 1 / 2) = k + 1"
proof -
  assume k: "0 \<le> k"
  have "\<lfloor>(of_int k :: rat) + 1 / 2 + 1 / 2\<rfloor> = k + 1"
    by (rule floor_unique) simp_all
  moreover have "(0 :: rat) \<le> of_int k + 1 / 2" using k by simp
  ultimately show ?thesis by (simp add: round_half_away_def)
qed


text \<open>What the splitter does to a list of features, for every finite ratio.\<close>

lemma split_list:
  assumes "fs input_file = Some (Geojson obj)"
    and "getitem obj ''features'' = Inr (JArr features)"
  shows "split_geojson input_file file_1 file_2 (Finite r) fs =
     (Inr (),
      fs(file_1 \<mapsto> Geojson (FeatureCollection (JArr
            (take (slice_index (round_half_away (r * of_nat (length features)))
                     (length features)) features))),
         file_2 \<mapsto> Geojson (FeatureCollection (JArr
            (drop (slice_index (round_half_away (r * of_nat (length features)))
                     (length features)) features)))))"
  using assms by (simp add: split_geojson_def geojson_load_def geojson_dump_def)

section \<open>The splitter\<close>






text \<open>
  Claim C10, as stated, fails for a ratio above 1: with one feature and the ratio 3/2 the
  product is \<open>1 + 1/2\<close> and the split index is 2, but the first output receives the one
  feature there is, not two.
\<close>

theorem split_geojson_tie_above_one:
  "(3 / 2 :: rat) * of_nat (length [example_feature ''1'']) = of_int 1 + 1 / 2 \<and>
   split_geojson ''one.geojson'' ''a.geojson'' ''b.geojson'' (Finite (3 / 2)) example_files =
     (Inr (), example_files
        (''a.geojson'' \<mapsto> Geojson (FeatureCollection (JArr [example_feature ''1''])),
         ''b.geojson'' \<mapsto> Geojson (FeatureCollection (JArr [])))) \<and>
   length [example_feature ''1''] \<noteq> 1 + 1"
proof -
  have f: "example_files ''one.geojson'' =
      Some (Geojson (FeatureCollection (JArr [example_feature ''1''])))"
    by (simp add: example_files_def)
  have g: "getitem (FeatureCollection (JArr [example_feature ''1''])) ''features'' =
      Inr (JArr [example_feature ''1''])"
    by (simp add: FeatureCollection_def)
  have n: "round_half_away (3 / 2 * of_nat (length [example_feature ''1''])) = 2"
    by code_simp
  show ?thesis
    using split_list [of example_files "''one.geojson''" _ _ "''a.geojson''" "''b.geojson''" "3 / 2",
        OF f g] n
    by (simp add: slice_index_def)
qed

text \<open>
  Claim C10, amended. The split index rounds a tie away from zero: for every
  FeatureCollection and finite ratio \<open>r\<close> whose product with the number of features is
  exactly \<open>k + 1/2\<close> for an integer \<open>k \<ge> 0\<close>, the first output receives the first \<open>k + 1\<close>
  features of the input; these are \<open>k + 1\<close> features whenever \<open>r \<le> 1\<close>, and every feature of
  the input when it has fewer than \<open>k + 1\<close>.
\<close>

theorem split_geojson_tie:
  assumes "fs input_file = Some (Geojson obj)"
    and "getitem obj ''features'' = Inr (JArr features)"
    and "r * of_nat (length features) = of_int k + 1 / 2"
    and "0 \<le> k"
  shows "\<exists>features_1 features_2.
     split_geojson input_file file_1 file_2 (Finite r) fs =
       (Inr (), fs(file_1 \<mapsto> Geojson (FeatureCollection (JArr features_1)),
                  file_2 \<mapsto> Geojson (FeatureCollection (JArr features_2)))) \<and>
     features_1 = take (nat k + 1) features \<and>
     length features_1 = min (nat k + 1) (length features) \<and>
     (r \<le> 1 \<longrightarrow> length features_1 = nat k + 1)"
proof -
  let ?n = "length features"
  let ?x = "r * of_nat ?n"
  have rnd: "round_half_away ?x = k + 1"
    using assms(3) round_half_away_tie [OF assms(4)] by simp
  have i: "slice_index (round_half_away ?x) ?n = min (nat k + 1) ?n"
    using rnd assms(4) by (simp add: slice_index_def nat_add_distrib)
  have run: "split_geojson input_file file_1 file_2 (Finite r) fs =
       (Inr (), fs(file_1 \<mapsto> Geojson (FeatureCollection (JArr (take (nat k + 1) features))),
                  file_2 \<mapsto> Geojson (FeatureCollection (JArr (drop (nat k + 1) features)))))"
    using split_list [of fs input_file obj features file_1 file_2 r] assms(1,2) i
    by (simp add: min_def split: if_splits)
  have le: "r \<le> 1 \<longrightarrow> nat k + 1 \<le> ?n"
  proof
    assume "r \<le> 1"
    moreover have "0 \<le> (of_nat ?n :: rat)" by simp
    ultimately have "?x \<le> of_nat ?n" using mult_right_mono [of r 1 "of_nat ?n"] by simp
    with assms(3) have "(of_int k :: rat) + 1 / 2 \<le> of_int (int ?n)" by simp
    then have "(of_int k :: rat) < of_int (int ?n)" by linarith
    then have "k < int ?n" by (simp only: of_int_less_iff)
    then show "nat k + 1 \<le> ?n" using assms(4) by linarith
  qed
  show ?thesis using run le by (auto simp: min_def)
qed

text \<open>Five features and the ratio 1/2: the first output has three features.\<close>

theorem split_geojson_tie_witness:
  "example_files ''five.geojson'' = Some (Geojson (FeatureCollection (JArr example_five))) \<and>
   getitem (FeatureCollection (JArr example_five)) ''features'' = Inr (JArr example_five) \<and>
   (1 / 2 :: rat) * of_nat (length example_five) = of_int 2 + 1 / 2 \<and>
   (\<exists>features_1 features_2.
      split_geojson ''five.geojson'' ''a.geojson'' ''b.geojson'' (Finite (1 / 2)) example_files =
        (Inr (), example_files(''a.geojson'' \<mapsto> Geojson (FeatureCollection (JArr features_1)),
                   ''b.geojson'' \<mapsto> Geojson (FeatureCollection (JArr features_2)))) \<and>
      features_1 = [example_feature ''1'', example_feature ''2'', example_feature ''3''] \<and>
      length features_1 = 3)"
proof -
  have f: "example_files ''five.geojson'' = Some (Geojson (FeatureCollection (JArr example_five)))"
    by (simp add: example_files_def)
  have g: "getitem (FeatureCollection (JArr example_five)) ''features'' = Inr (JArr example_five)"
    by (simp add: FeatureCollection_def)
  have x: "(1 / 2 :: rat) * of_nat (length example_five) = of_int 2 + 1 / 2"
    by (simp add: example_five_def example_four_def)
  have k: "(0 :: int) \<le> 2" by simp
  have t: "take (nat 2 + 1) example_five =
      [example_feature ''1'', example_feature ''2'', example_feature ''3'']"
    by (simp add: example_five_def example_four_def)
  from split_geojson_tie
         [of example_files "''five.geojson''" _ _ _ _ "''a.geojson''" "''b.geojson''", OF f g x k] t
  have "\<exists>features_1 features_2.
      split_geojson ''five.geojson'' ''a.geojson'' ''b.geojson'' (Finite (1 / 2)) example_files =
        (Inr (), example_files(''a.geojson'' \<mapsto> Geojson (FeatureCollection (JArr features_1)),
                   ''b.geojson'' \<mapsto> Geojson (FeatureCollection (JArr features_2)))) \<and>
      features_1 = [example_feature ''1'', example_feature ''2'', example_feature ''3''] \<and>
      length features_1 = 3"
    by auto
  with f g x show ?thesis by blast
qed

section \<open>The joiner\<close>

lemma getitem_error: "getitem obj key = Inl e \<Longrightarrow> read_error e"
  by (cases obj) (auto split: option.splits)

lemma geojson_load_error: "geojson_load fs path = Inl e \<Longrightarrow> read_error e"
  by (auto simp: geojson_load_def split: option.splits content.splits)

lemma py_add_error: "py_add a b = Inl e \<Longrightarrow> \<not> read_error e"
  by (induction a b rule: py_add.induct) (auto split: option.splits)

lemma setitem_after_getitem: "getitem obj key = Inr v \<Longrightarrow> setitem obj key w \<noteq> Inl e"
  by (cases obj) auto

text \<open>
  Claim C4. For two input files that hold objects whose \<^verbatim>\<open>features\<close> members are lists,
  the joiner writes to the output path the first object with its \<^verbatim>\<open>features\<close> member
  replaced by the first list followed by the second, nothing reordered and nothing
  dropped; every other member of the first object (a coordinate reference system, for
  one) is kept as it is.
\<close>

theorem join_two_geojsons_concatenates:
  assumes "fs file_1 = Some (Geojson a)"
    and "fs file_2 = Some (Geojson b)"
    and "getitem a ''features'' = Inr (JArr features_1)"
    and "getitem b ''features'' = Inr (JArr features_2)"
  shows "\<exists>joined.
     join_two_geojsons file_1 file_2 output_file fs =
       (Inr (), fs(output_file \<mapsto> Geojson joined)) \<and>
     getitem joined ''features'' = Inr (JArr (features_1 @ features_2)) \<and>
     (\<forall>key. key \<noteq> ''features'' \<longrightarrow> getitem joined key = getitem a key)"
proof -
  obtain kvs where a: "a = JObj kvs"
    using assms(3) by (cases a) auto
  let ?joined = "JObj (AList.update ''features'' (JArr (features_1 @ features_2)) kvs)"
  have "join_two_geojsons file_1 file_2 output_file fs =
      (Inr (), fs(output_file \<mapsto> Geojson ?joined))"
    using assms a by (simp add: join_two_geojsons_def geojson_load_def geojson_dump_def)
  moreover have "getitem ?joined ''features'' = Inr (JArr (features_1 @ features_2))"
    by (simp add: update_conv')
  moreover have "\<forall>key. key \<noteq> ''features'' \<longrightarrow> getitem ?joined key = getitem a key"
    using a by (simp add: update_conv')
  ultimately show ?thesis by blast
qed

text \<open>
  A collection with a \<^verbatim>\<open>crs\<close> member and two features, joined with a collection of four
  features that repeats both: six features, the repeated ones kept, and the \<^verbatim>\<open>crs\<close>
  member of the first.
\<close>

theorem join_two_geojsons_concatenates_witness:
  "\<exists>joined.
     join_two_geojsons ''crs.geojson'' ''four.geojson'' ''joined.geojson'' example_files =
       (Inr (), example_files(''joined.geojson'' \<mapsto> Geojson joined)) \<and>
     getitem joined ''features'' =
       Inr (JArr ([example_feature ''1'', example_feature ''2''] @ example_four)) \<and>
     getitem joined ''crs'' = Inr (JStr ''EPSG:4326'')"
proof -
  let ?a = "JObj [(''type'', JStr ''FeatureCollection''), (''crs'', JStr ''EPSG:4326''),
                  (''features'', JArr [example_feature ''1'', example_feature ''2''])]"
  have f1: "example_files ''crs.geojson'' = Some (Geojson ?a)"
    by (simp add: example_files_def)
  have f2: "example_files ''four.geojson'' = Some (Geojson (FeatureCollection (JArr example_four)))"
    by (simp add: example_files_def)
  have g1: "getitem ?a ''features'' = Inr (JArr [example_feature ''1'', example_feature ''2''])"
    by simp
  have g2: "getitem (FeatureCollection (JArr example_four)) ''features'' = Inr (JArr example_four)"
    by (simp add: FeatureCollection_def)
  have c: "getitem ?a ''crs'' = Inr (JStr ''EPSG:4326'')"
    by simp
  have k: "''crs'' \<noteq> ''features''" by simp
  from join_two_geojsons_concatenates
         [of example_files "''crs.geojson''" _ "''four.geojson''" _ _ _ "''joined.geojson''",
          OF f1 f2 g1 g2]
  obtain joined where
    j: "join_two_geojsons ''crs.geojson'' ''four.geojson'' ''joined.geojson'' example_files =
          (Inr (), example_files(''joined.geojson'' \<mapsto> Geojson joined))"
       "getitem joined ''features'' =
          Inr (JArr ([example_feature ''1'', example_feature ''2''] @ example_four))"
       "\<forall>key. key \<noteq> ''features'' \<longrightarrow> getitem joined key = getitem ?a key"
    by blast
  from j(3) k c have "getitem joined ''crs'' = Inr (JStr ''EPSG:4326'')" by simp
  with j(1,2) show ?thesis by blast
qed

text \<open>
  Claim C8. The joiner fails with an error of reading (opening a file, decoding it, or
  reading its \<^verbatim>\<open>features\<close> member) exactly when one of the two input files is not valid
  geojson or its object lacks the \<^verbatim>\<open>features\<close> key; in that case the file store is left
  as it was, so no output file is produced. On two files that hold FeatureCollections the
  joiner does not fail.
\<close>

theorem join_two_geojsons_read_errors:
  "failed_reading (join_two_geojsons file_1 file_2 output_file fs) =
     (\<not> valid_geojson fs file_1 \<or> lacks_features fs file_1 \<or>
      \<not> valid_geojson fs file_2 \<or> lacks_features fs file_2) \<and>
   (failed_reading (join_two_geojsons file_1 file_2 output_file fs) \<longrightarrow>
      snd (join_two_geojsons file_1 file_2 output_file fs) = fs) \<and>
   (fs file_1 = Some (Geojson (FeatureCollection (JArr features_1))) \<and>
    fs file_2 = Some (Geojson (FeatureCollection (JArr features_2))) \<longrightarrow>
      fst (join_two_geojsons file_1 file_2 output_file fs) = Inr ())"
proof (intro conjI impI)
  show "failed_reading (join_two_geojsons file_1 file_2 output_file fs) =
     (\<not> valid_geojson fs file_1 \<or> lacks_features fs file_1 \<or>
      \<not> valid_geojson fs file_2 \<or> lacks_features fs file_2)"
    unfolding failed_reading_def valid_geojson_def lacks_features_def join_two_geojsons_def
    by (auto split: sum.splits
        dest: geojson_load_error getitem_error py_add_error setitem_after_getitem)
next
  assume "failed_reading (join_two_geojsons file_1 file_2 output_file fs)"
  then show "snd (join_two_geojsons file_1 file_2 output_file fs) = fs"
    unfolding failed_reading_def join_two_geojsons_def
    by (auto split: sum.splits)
next
  assume "fs file_1 = Some (Geojson (FeatureCollection (JArr features_1))) \<and>
    fs file_2 = Some (Geojson (FeatureCollection (JArr features_2)))"
  then show "fst (join_two_geojsons file_1 file_2 output_file fs) = Inr ()"
    by (simp add: join_two_geojsons_def geojson_load_def FeatureCollection_def)
qed

text \<open>
  A second file without the \<^verbatim>\<open>features\<close> key, a first file that cannot be decoded, and
  two FeatureCollections.
\<close>

theorem join_two_geojsons_read_errors_witness:
  "lacks_features example_files ''nofeatures.geojson'' \<and>
   join_two_geojsons ''four.geojson'' ''nofeatures.geojson'' ''joined.geojson'' example_files =
     (Inl (KeyError ''features''), example_files) \<and>
   failed_reading
     (join_two_geojsons ''four.geojson'' ''nofeatures.geojson'' ''joined.geojson'' example_files) \<and>
   \<not> valid_geojson example_files ''broken.geojson'' \<and>
   failed_reading
     (join_two_geojsons ''broken.geojson'' ''four.geojson'' ''joined.geojson'' example_files) \<and>
   snd (join_two_geojsons ''broken.geojson'' ''four.geojson'' ''joined.geojson'' example_files) =
     example_files \<and>
   fst (join_two_geojsons ''four.geojson'' ''five.geojson'' ''joined.geojson'' example_files) =
     Inr ()"
proof -
  have l: "lacks_features example_files ''nofeatures.geojson''"
    by (simp add: lacks_features_def geojson_load_def example_files_def)
  have b: "\<not> valid_geojson example_files ''broken.geojson''"
    by (simp add: valid_geojson_def geojson_load_def example_files_def)
  have e: "join_two_geojsons ''four.geojson'' ''nofeatures.geojson'' ''joined.geojson''
      example_files = (Inl (KeyError ''features''), example_files)"
    by (simp add: join_two_geojsons_def geojson_load_def example_files_def FeatureCollection_def)
  have f4: "example_files ''four.geojson'' = Some (Geojson (FeatureCollection (JArr example_four)))"
    by (simp add: example_files_def)
  have f5: "example_files ''five.geojson'' = Some (Geojson (FeatureCollection (JArr example_five)))"
    by (simp add: example_files_def)
  note one = join_two_geojsons_read_errors
    [of "''four.geojson''" "''nofeatures.geojson''" "''joined.geojson''" example_files]
  note two = join_two_geojsons_read_errors
    [of "''broken.geojson''" "''four.geojson''" "''joined.geojson''" example_files]
  note three = join_two_geojsons_read_errors
    [of "''four.geojson''" "''five.geojson''" "''joined.geojson''" example_files
        example_four example_five]
  have r1: "failed_reading
     (join_two_geojsons ''four.geojson'' ''nofeatures.geojson'' ''joined.geojson'' example_files)"
    using one l by blast
  have r2: "failed_reading
     (join_two_geojsons ''broken.geojson'' ''four.geojson'' ''joined.geojson'' example_files)"
    using two b by blast
  have r3: "snd (join_two_geojsons ''broken.geojson'' ''four.geojson'' ''joined.geojson''
      example_files) = example_files"
    using two r2 by blast
  have r4: "fst (join_two_geojsons ''four.geojson'' ''five.geojson'' ''joined.geojson''
      example_files) = Inr ()"
    using three f4 f5 by blast
  from l e r1 b r2 r3 r4 show ?thesis by blast
qed

section \<open>The exporters\<close>

subsection \<open>Formatting\<close>

text \<open>
  The training template has six fields and is given six arguments. The target template
  has six fields and is given five arguments.
\<close>

lemma train_query_formats:
  "\<exists>query. py_format float_str train_query [a1, a2, a3, a4, a5, a6] = Inr query"
  by (simp add: train_query_def)

lemma target_query_raises:
  "py_format float_str target_query [a1, a2, a3, a4, a5] = Inl IndexError"
  by (simp add: target_query_def)

lemma target_geojson_raises:
  "target_geojson globals float_str db_fetch_array loads
       schema cat_id max_number output_file max_score max_votes fs =
     (Inl (case globals ''min_score'' of
             None \<Rightarrow> NameError ''min_score''
           | Some v \<Rightarrow> IndexError), fs)"
  by (simp add: target_geojson_def target_query_raises split: option.splits)

subsection \<open>The conversion loops\<close>


lemma exterior_coords_ring:
  "exterior_coords loads coords_in_hex = Inr coords \<Longrightarrow>
   \<exists>exterior interiors. loads coords_in_hex = Some (PolygonShape exterior interiors) \<and>
      coords = JArr [JArr (map coord_json exterior)]"
  by (auto simp: exterior_coords_def split: option.splits shape.splits)




lemma train_convert_rows:
  "train_convert loads class_name cat_id data = Inr features \<Longrightarrow>
   length features = length data \<and>
   (\<forall>i<length data.
      property (features ! i) ''id'' = Some (JStr (str_int (fst (data ! i)))) \<and>
      property (features ! i) ''class_name'' = Some (JStr class_name) \<and>
      property (features ! i) ''image_name'' = Some (JStr cat_id) \<and>
      (\<exists>exterior interiors.
         loads (snd (data ! i)) = Some (PolygonShape exterior interiors) \<and>
         rings (features ! i) = Some [JArr (map coord_json exterior)]))"
proof (induction data arbitrary: features)
  case Nil
  then show ?case by simp
next
  case (Cons entry data)
  obtain feature_id coords_in_hex where entry: "entry = (feature_id, coords_in_hex)"
    by (cases entry)
  from Cons.prems entry obtain coords rest where
    c: "exterior_coords loads coords_in_hex = Inr coords" and
    r: "train_convert loads class_name cat_id data = Inr rest" and
    f: "features = Feature (Polygon coords)
          (JObj [(''id'', JStr (str_int feature_id)), (''class_name'', JStr class_name),
                 (''image_name'', JStr cat_id)]) # rest"
    by (auto split: sum.splits)
  from exterior_coords_ring [OF c] obtain exterior interiors where
    e: "loads coords_in_hex = Some (PolygonShape exterior interiors)"
      "coords = JArr [JArr (map coord_json exterior)]" by blast
  have len: "length features = length (entry # data)"
    using f Cons.IH [OF r] by simp
  have rows: "\<forall>i<length (entry # data).
      property (features ! i) ''id'' = Some (JStr (str_int (fst ((entry # data) ! i)))) \<and>
      property (features ! i) ''class_name'' = Some (JStr class_name) \<and>
      property (features ! i) ''image_name'' = Some (JStr cat_id) \<and>
      (\<exists>exterior interiors.
         loads (snd ((entry # data) ! i)) = Some (PolygonShape exterior interiors) \<and>
         rings (features ! i) = Some [JArr (map coord_json exterior)])"
  proof (intro allI impI)
    fix i assume i: "i < length (entry # data)"
    show "property (features ! i) ''id'' = Some (JStr (str_int (fst ((entry # data) ! i)))) \<and>
      property (features ! i) ''class_name'' = Some (JStr class_name) \<and>
      property (features ! i) ''image_name'' = Some (JStr cat_id) \<and>
      (\<exists>exterior interiors.
         loads (snd ((entry # data) ! i)) = Some (PolygonShape exterior interiors) \<and>
         rings (features ! i) = Some [JArr (map coord_json exterior)])"
    proof (cases i)
      case 0
      then show ?thesis
        using f e entry
        by (simp add: property_def rings_def Feature_def Polygon_def)
    next
      case (Suc j)
      with i have "j < length data" by simp
      with Cons.IH [OF r] Suc f show ?thesis by simp
    qed
  qed
  from len rows show ?case by blast
qed


subsection \<open>What the training exporter writes\<close>

lemma train_geojson_writes:
  assumes "train_geojson float_str db_fetch_array loads
       schema cat_id max_number output_file class_name min_score min_votes fs = (Inr (), fs')"
  shows "\<exists>query data features.
     py_format float_str train_query
        [PStr schema, PStr cat_id, PStr class_name,
         PFloat min_score, PInt min_votes, PInt max_number] = Inr query \<and>
     db_fetch_array query = Inr data \<and>
     train_convert loads class_name cat_id data = Inr features \<and>
     fs' = fs(output_file \<mapsto> Geojson (FeatureCollection (JArr features)))"
  using assms by (auto simp: train_geojson_def geojson_dump_def split: sum.splits)

subsection \<open>The rows of the training query\<close>




section \<open>The target exporter\<close>

text \<open>
  Claim C1 describes what the target exporter is documented to do; the code does not do
  it. The call \<^verbatim>\<open>target_geojson('campaign', 'cat1', 10, 'target.geojson', 1.0, 0)\<close>
  raises \<open>NameError\<close> for \<^verbatim>\<open>min_score\<close> while the arguments of \<^verbatim>\<open>format\<close> are evaluated:
  no query is sent, no feature is retrieved and no file is written, whatever the
  database holds. By \<open>target_geojson_raises\<close> the same holds for every input, and with
  \<^verbatim>\<open>min_score\<close> bound the six fields of the template against five arguments raise
  \<open>IndexError\<close>.
\<close>

theorem target_geojson_name_error:
  "target_geojson module_globals float_str db_fetch_array loads
       ''campaign'' ''cat1'' 10 ''target.geojson'' (Finite 1) 0 fs =
     (Inl (NameError ''min_score''), fs)"
  by (simp add: target_geojson_raises module_globals_def)

section \<open>The training exporter\<close>



text \<open>
  Claim C6. When the training exporter returns, the output file holds one Feature for
  each row the database returned, in order; the \<^verbatim>\<open>class_name\<close> property of each is the
  class name the caller passed, its \<^verbatim>\<open>image_name\<close> property is the catalog identifier the
  caller passed, its \<^verbatim>\<open>id\<close> is the row's identifier as a string, and its geometry has one
  ring, the coordinates of the exterior ring of the polygon decoded from the row.
\<close>

theorem train_geojson_feature_of_row:
  assumes "train_geojson float_str db_fetch_array loads
           schema cat_id max_number output_file class_name min_score min_votes fs =
         (Inr (), fs')"
  shows "\<exists>query data features.
     py_format float_str train_query
        [PStr schema, PStr cat_id, PStr class_name,
         PFloat min_score, PInt min_votes, PInt max_number] = Inr query \<and>
     db_fetch_array query = Inr data \<and>
     fs' = fs(output_file \<mapsto> Geojson (FeatureCollection (JArr features))) \<and>
     length features = length data \<and>
     (\<forall>i<length data.
        property (features ! i) ''id'' = Some (JStr (str_int (fst (data ! i)))) \<and>
        property (features ! i) ''class_name'' = Some (JStr class_name) \<and>
        property (features ! i) ''image_name'' = Some (JStr cat_id) \<and>
        (\<exists>exterior interiors.
           loads (snd (data ! i)) = Some (PolygonShape exterior interiors) \<and>
           rings (features ! i) = Some [JArr (map coord_json exterior)]))"
proof -
  from train_geojson_writes [OF assms] obtain query data features where
    q: "py_format float_str train_query
        [PStr schema, PStr cat_id, PStr class_name,
         PFloat min_score, PInt min_votes, PInt max_number] = Inr query" and
    d: "db_fetch_array query = Inr data" and
    c: "train_convert loads class_name cat_id data = Inr features" and
    w: "fs' = fs(output_file \<mapsto> Geojson (FeatureCollection (JArr features)))"
    by blast
  from q d w train_convert_rows [OF c] show ?thesis by blast
qed

text \<open>
  The first row of the example is feature 8: its polygon has no interior ring. The
  second is feature 7, whose interior ring is left out.
\<close>

theorem train_geojson_feature_of_row_witness:
  "\<exists>features.
     train_geojson example_float_str example_fetch example_loads
         ''campaign'' ''cat1'' 10 ''train.geojson'' ''building'' (Finite (9 / 10)) 0
         example_files =
       (Inr (), example_files(''train.geojson'' \<mapsto>
                   Geojson (FeatureCollection (JArr features)))) \<and>
     length features = 2 \<and>
     property (features ! 1) ''id'' = Some (JStr ''7'') \<and>
     property (features ! 1) ''class_name'' = Some (JStr ''building'') \<and>
     property (features ! 1) ''image_name'' = Some (JStr ''cat1'') \<and>
     rings (features ! 1) =
       Some [JArr [coord_json (0, 0), coord_json (4, 0), coord_json (4, 3), coord_json (0, 0)]]"
proof -
  let ?run = "train_geojson example_float_str example_fetch example_loads
         ''campaign'' ''cat1'' 10 ''train.geojson'' ''building'' (Finite (9 / 10)) 0
         example_files"
  obtain query where
    q: "py_format example_float_str train_query
          [PStr ''campaign'', PStr ''cat1'', PStr ''building'',
           PFloat (Finite (9 / 10)), PInt 0, PInt 10] = Inr query"
    using train_query_formats by blast
  have r: "?run = (Inr (), snd ?run)"
    by (simp add: train_geojson_def q example_fetch_def example_rows_def train_columns_def
        exterior_coords_def example_loads_def)
  from train_geojson_feature_of_row [OF r] obtain query' data features where
    d: "example_fetch query' = Inr data" and
    w: "snd ?run = example_files(''train.geojson'' \<mapsto>
          Geojson (FeatureCollection (JArr features)))" and
    l: "length features = length data" and
    rows: "\<forall>i<length data.
        property (features ! i) ''id'' = Some (JStr (str_int (fst (data ! i)))) \<and>
        property (features ! i) ''class_name'' = Some (JStr ''building'') \<and>
        property (features ! i) ''image_name'' = Some (JStr ''cat1'') \<and>
        (\<exists>exterior interiors.
           example_loads (snd (data ! i)) = Some (PolygonShape exterior interiors) \<and>
           rings (features ! i) = Some [JArr (map coord_json exterior)])"
    by blast
  from d have data: "data = [(8, ''0103B0''), (7, ''0103A0'')]"
    by (simp add: example_fetch_def example_rows_def train_columns_def)
  have seven: "str_int 7 = ''7''"
    by (simp add: str_int_def str_nat.simps digit_def)
  have hex: "example_loads ''0103A0'' =
      Some (PolygonShape [(0, 0), (4, 0), (4, 3), (0, 0)] [[(1, 1), (2, 1), (2, 2), (1, 1)]])"
    by (simp add: example_loads_def)
  from rows data have one:
    "property (features ! 1) ''id'' = Some (JStr (str_int 7)) \<and>
     property (features ! 1) ''class_name'' = Some (JStr ''building'') \<and>
     property (features ! 1) ''image_name'' = Some (JStr ''cat1'') \<and>
     (\<exists>exterior interiors.
        example_loads ''0103A0'' = Some (PolygonShape exterior interiors) \<and>
        rings (features ! 1) = Some [JArr (map coord_json exterior)])"
    by force
  with hex have ring: "rings (features ! 1) =
       Some [JArr [coord_json (0, 0), coord_json (4, 0), coord_json (4, 3), coord_json (0, 0)]]"
    by auto
  from r w l data one seven ring show ?thesis by auto
qed

section \<open>Both exporters\<close>



text \<open>
  Claim C9. When a row of the training exporter fails to decode, the exception reaches
  the caller with the file store as it was before the call: every row is converted
  before the output file is opened, so a file already at the output path is left
  unchanged. The target exporter has the same order of steps, and as written it raises
  before it fetches any row, so it never changes the file store either.
\<close>

theorem decode_failure_writes_nothing:
  "(py_format float_str train_query
        [PStr schema, PStr cat_id, PStr class_name,
         PFloat min_score, PInt min_votes, PInt max_number] = Inr query \<and>
    db_fetch_array query = Inr data \<and>
    train_convert loads class_name cat_id data = Inl e \<longrightarrow>
      train_geojson float_str db_fetch_array loads
          schema cat_id max_number output_file class_name min_score min_votes fs =
        (Inl e, fs)) \<and>
   snd (target_geojson globals float_str db_fetch_targets loads
          schema cat_id max_number output_file max_score max_votes fs) = fs"
proof (intro conjI impI)
  assume "py_format float_str train_query
        [PStr schema, PStr cat_id, PStr class_name,
         PFloat min_score, PInt min_votes, PInt max_number] = Inr query \<and>
    db_fetch_array query = Inr data \<and>
    train_convert loads class_name cat_id data = Inl e"
  then show "train_geojson float_str db_fetch_array loads
          schema cat_id max_number output_file class_name min_score min_votes fs =
        (Inl e, fs)"
    by (simp add: train_geojson_def)
next
  show "snd (target_geojson globals float_str db_fetch_targets loads
          schema cat_id max_number output_file max_score max_votes fs) = fs"
    by (simp add: target_geojson_raises)
qed

text \<open>
  The second row of the database's answer has a malformed encoding, and the output path
  is a file that exists: the exporter raises and the file store is unchanged.
\<close>

theorem decode_failure_writes_nothing_witness:
  "train_convert example_loads ''building'' ''cat1'' [(8, ''0103B0''), (14, ''FFFF'')] =
     Inl WKBReadingError \<and>
   train_geojson example_float_str example_fetch_malformed example_loads
       ''campaign'' ''cat1'' 10 ''four.geojson'' ''building'' (Finite (9 / 10)) 0 example_files =
     (Inl WKBReadingError, example_files) \<and>
   example_files ''four.geojson'' = Some (Geojson (FeatureCollection (JArr example_four))) \<and>
   snd (target_geojson module_globals example_float_str (\<lambda>query. Inr example_targets)
          example_loads ''campaign'' ''cat1'' 10 ''four.geojson'' (Finite 1) 0 example_files) =
     example_files"
proof -
  obtain query where
    q: "py_format example_float_str train_query
          [PStr ''campaign'', PStr ''cat1'', PStr ''building'',
           PFloat (Finite (9 / 10)), PInt 0, PInt 10] = Inr query"
    using train_query_formats by blast
  have d: "example_fetch_malformed query = Inr [(8, ''0103B0''), (14, ''FFFF'')]"
    by (simp add: example_fetch_malformed_def)
  have c: "train_convert example_loads ''building'' ''cat1'' [(8, ''0103B0''), (14, ''FFFF'')] =
     Inl WKBReadingError"
    by (simp add: exterior_coords_def example_loads_def)
  have f: "example_files ''four.geojson'' = Some (Geojson (FeatureCollection (JArr example_four)))"
    by (simp add: example_files_def)
  note both = decode_failure_writes_nothing
    [of example_float_str "''campaign''" "''cat1''" "''building''" "Finite (9 / 10)" 0 10 query
        example_fetch_malformed "[(8, ''0103B0''), (14, ''FFFF'')]" example_loads WKBReadingError
        "''four.geojson''" example_files
        module_globals "\<lambda>query. Inr example_targets" "Finite 1" 0]
  from both q d c have one:
    "train_geojson example_float_str example_fetch_malformed example_loads
       ''campaign'' ''cat1'' 10 ''four.geojson'' ''building'' (Finite (9 / 10)) 0 example_files =
     (Inl WKBReadingError, example_files)"
    by blast
  from both have two:
    "snd (target_geojson module_globals example_float_str (\<lambda>query. Inr example_targets)
          example_loads ''campaign'' ''cat1'' 10 ''four.geojson'' (Finite 1) 0 example_files) =
     example_files"
    by blast
  from c one f two show ?thesis by blast
qed

end
